theory Spec2Isabelle
  imports Main
begin

section \<open>JavaScript values\<close>

text \<open>
  The library is dynamically typed at run time: a result is a plain object
  \<^verbatim>\<open>{ ok: true, data }\<close> or \<^verbatim>\<open>{ ok: false, error }\<close>, payloads are arbitrary
  values, and a deferred value is whatever passes \<^verbatim>\<open>isPromise\<close>.  Values are
  therefore one datatype.  An object or a function carries the reference that gives
  it its identity and the list of the properties that the \<^verbatim>\<open>in\<close> operator and a
  property read can see (those of \<^verbatim>\<open>Object.prototype\<close> left out: the library
  never asks for them).  A native promise is represented by its eventual settlement;
  \<open>Pending\<close> is a promise that never settles.  Numbers are opaque payloads
  and stand as integers.

  A function value is opaque but for one thing, which the host's promises need: what
  it does with the two settling functions when a promise calls it as a \<^verbatim>\<open>then\<close>
  method.  It hands a value to the first (\<open>Fulfilled\<close>), hands a reason to the
  second or throws it (\<open>Rejected\<close>), or calls neither (\<open>Pending\<close>); only the
  first call counts.
\<close>

datatype val =
    VUndefined
  | VNull
  | VBool bool
  | VNum int
  | VStr string
  | VSymbol nat
  | VBigInt int
  | VObj nat "(string \<times> val) list"
  | VFun nat "(string \<times> val) list" settlement
  | VPromise settlement
and settlement =
    Fulfilled val
  | Rejected val
  | Pending

text \<open>
  What a caller-supplied function does when it is applied: it returns or it throws.
  A combinator applies its callback at most once, so the callback is a function of its
  argument; its own side effects are not the library's business and are left out.
\<close>

datatype outcome = Returns val | Throws val

text \<open>
  How a piece of library code ends.  \<open>Unmodelled\<close> marks the places where control
  would pass to code this development has no description of: a function value called
  through a reference, or the \<^verbatim>\<open>then\<close>/\<^verbatim>\<open>catch\<close> method of an object that is not
  a native promise, called by the library with a callback of its own.
\<close>

datatype 'a completion = Normal 'a | Throw val | Unmodelled

text \<open>
  The observable world: the next free object reference (every object literal takes
  one) and the arguments of the callback invocations made so far, in order.
\<close>

record world =
  next_ref :: nat
  calls :: "val list"

type_synonym 'a js = "world \<Rightarrow> 'a completion \<times> world"

definition ret :: "'a \<Rightarrow> 'a js" where
  "ret v w = (Normal v, w)"

definition throw :: "val \<Rightarrow> 'a js" where
  "throw e w = (Throw e, w)"

definition bind :: "'a js \<Rightarrow> ('a \<Rightarrow> 'b js) \<Rightarrow> 'b js" where
  "bind m k w = (case m w of
       (Normal v, w') \<Rightarrow> k v w'
     | (Throw e, w') \<Rightarrow> (Throw e, w')
     | (Unmodelled, w') \<Rightarrow> (Unmodelled, w'))"

text \<open>\<^verbatim>\<open>try { body } catch (e) { handler(e) }\<close>\<close>

definition try_catch :: "'a js \<Rightarrow> (val \<Rightarrow> 'a js) \<Rightarrow> 'a js" where
  "try_catch body handler w = (case body w of
       (Normal v, w') \<Rightarrow> (Normal v, w')
     | (Throw e, w') \<Rightarrow> handler e w'
     | (Unmodelled, w') \<Rightarrow> (Unmodelled, w'))"

text \<open>The \<^verbatim>\<open>TypeError\<close> the engine raises, identified by its name.\<close>

definition type_error :: val where
  "type_error = VStr ''TypeError''"

fun truthy :: "val \<Rightarrow> bool" where
  "truthy VUndefined = False"
| "truthy VNull = False"
| "truthy (VBool b) = b"
| "truthy (VNum n) = (n \<noteq> 0)"
| "truthy (VStr s) = (s \<noteq> [])"
| "truthy (VBigInt n) = (n \<noteq> 0)"
| "truthy _ = True"

fun typeof :: "val \<Rightarrow> string" where
  "typeof VUndefined = ''undefined''"
| "typeof VNull = ''object''"
| "typeof (VBool _) = ''boolean''"
| "typeof (VNum _) = ''number''"
| "typeof (VStr _) = ''string''"
| "typeof (VSymbol _) = ''symbol''"
| "typeof (VBigInt _) = ''bigint''"
| "typeof (VObj _ _) = ''object''"
| "typeof (VFun _ _ _) = ''function''"
| "typeof (VPromise _) = ''object''"

text \<open>
  \<^verbatim>\<open>key in value\<close>.  On a primitive the operator throws; \<^verbatim>\<open>isPromise\<close> only
  reaches it behind \<^verbatim>\<open>typeof value === "object"\<close> and a truthiness test, so the
  value given here for primitives is never used.
\<close>

fun has_property :: "val \<Rightarrow> string \<Rightarrow> bool" where
  "has_property (VObj _ ps) k = (k \<in> set (map fst ps))"
| "has_property (VFun _ ps _) k = (k \<in> set (map fst ps))"
| "has_property (VPromise _) k = (k \<in> set [''then'', ''catch'', ''finally''])"
| "has_property _ k = False"

text \<open>
  \<^verbatim>\<open>value.key\<close>: a \<^verbatim>\<open>TypeError\<close> on \<^verbatim>\<open>undefined\<close> and \<^verbatim>\<open>null\<close>, and
  \<^verbatim>\<open>undefined\<close> for a property that is not there.  The methods of a native promise
  are not read as values: calling them is \<open>promise_then\<close> and \<open>promise_catch\<close>.
\<close>

fun get_property :: "val \<Rightarrow> string \<Rightarrow> val js" where
  "get_property VUndefined k = throw type_error"
| "get_property VNull k = throw type_error"
| "get_property (VObj _ ps) k = ret (case map_of ps k of Some v \<Rightarrow> v | None \<Rightarrow> VUndefined)"
| "get_property (VFun _ ps _) k = ret (case map_of ps k of Some v \<Rightarrow> v | None \<Rightarrow> VUndefined)"
| "get_property _ k = ret VUndefined"

fun callable :: "val \<Rightarrow> bool" where
  "callable (VFun _ _ _) = True"
| "callable _ = False"

text \<open>Calling a value: a function value is foreign code, anything else is not callable.\<close>

definition call_value :: "val \<Rightarrow> val js" where
  "call_value f = (if callable f then (\<lambda>w. (Unmodelled, w)) else throw type_error)"

text \<open>
  Calling the callback handed to a combinator: the invocation is recorded with its
  argument, and the callback returns or throws.
\<close>

definition call :: "(val \<Rightarrow> outcome) \<Rightarrow> val \<Rightarrow> val js" where
  "call fn arg w =
     (case fn arg of Returns v \<Rightarrow> Normal v | Throws e \<Rightarrow> Throw e,
      w\<lparr>calls := calls w @ [arg]\<rparr>)"

section \<open>The host's promises\<close>

text \<open>
  Time is abstracted: a promise stands for its eventual settlement, so a reaction
  registered with \<^verbatim>\<open>then\<close> or \<^verbatim>\<open>catch\<close> is applied to that settlement where
  it is registered, and the promise it returns stands for its own eventual settlement.
  What is kept of the order of events is that a reaction on a promise that never
  settles never runs, and that the promise it returns never settles either.
\<close>

fun thenable :: "val \<Rightarrow> bool" where
  "thenable (VObj _ ps) = (case map_of ps ''then'' of Some m \<Rightarrow> callable m | None \<Rightarrow> False)"
| "thenable (VFun _ ps _) = (case map_of ps ''then'' of Some m \<Rightarrow> callable m | None \<Rightarrow> False)"
| "thenable _ = False"

text \<open>What the \<^verbatim>\<open>then\<close> method of a value delivers, when the value has one.\<close>

fun method_delivers :: "val \<Rightarrow> settlement option" where
  "method_delivers (VFun _ _ b) = Some b"
| "method_delivers _ = None"

fun then_delivers :: "val \<Rightarrow> settlement option" where
  "then_delivers (VObj _ ps) =
     (case map_of ps ''then'' of Some m \<Rightarrow> method_delivers m | None \<Rightarrow> None)"
| "then_delivers (VFun _ ps _) =
     (case map_of ps ''then'' of Some m \<Rightarrow> method_delivers m | None \<Rightarrow> None)"
| "then_delivers _ = None"

lemma size_map_of:
  "map_of ps k = Some v \<Longrightarrow> size v < Suc (size_list (size_prod (\<lambda>_. 0) size) ps)"
  by (induction ps) (auto split: if_splits)

lemma size_then_delivers: "then_delivers v = Some (Fulfilled y) \<Longrightarrow> size y < size v"
proof (cases v)
  case (VObj r ps)
  assume d: "then_delivers v = Some (Fulfilled y)"
  then obtain m where m: "map_of ps ''then'' = Some m" "method_delivers m = Some (Fulfilled y)"
    using VObj by (auto split: option.splits)
  then have "size y < size m"
    by (cases m) auto
  with size_map_of[OF m(1)] VObj show ?thesis
    by simp
next
  case (VFun r ps b)
  assume d: "then_delivers v = Some (Fulfilled y)"
  then obtain m where m: "map_of ps ''then'' = Some m" "method_delivers m = Some (Fulfilled y)"
    using VFun by (auto split: option.splits)
  then have "size y < size m"
    by (cases m) auto
  with size_map_of[OF m(1)] VFun show ?thesis
    by simp
qed simp_all

text \<open>
  The settlement of a promise resolved with a value.  A native promise is adopted.
  Another thenable has its \<^verbatim>\<open>then\<close> called with the promise's settling functions:
  a value it hands over resolves the promise in turn, a reason rejects it, and a method
  that calls neither leaves it pending.  Any other value fulfils the promise.
\<close>

function (sequential) adopt :: "val \<Rightarrow> settlement" where
  "adopt (VPromise s) = s"
| "adopt v =
     (case then_delivers v of
        None \<Rightarrow> Fulfilled v
      | Some b \<Rightarrow> (case b of
           Fulfilled y \<Rightarrow> adopt y
         | Rejected x \<Rightarrow> Rejected x
         | Pending \<Rightarrow> Pending))"
  by pat_completeness auto
termination
  by (relation "measure size") (auto simp del: then_delivers.simps dest: size_then_delivers)

definition resolve :: "val \<Rightarrow> val js" where
  "resolve v = ret (VPromise (adopt v))"

text \<open>The promise returned by \<^verbatim>\<open>then\<close>/\<^verbatim>\<open>catch\<close> once its reaction \<open>cb x\<close> has run.\<close>

definition react :: "val js \<Rightarrow> val js" where
  "react body w = (case body w of
       (Normal r, w') \<Rightarrow> resolve r w'
     | (Throw e, w') \<Rightarrow> (Normal (VPromise (Rejected e)), w')
     | (Unmodelled, w') \<Rightarrow> (Unmodelled, w'))"

text \<open>
  \<^verbatim>\<open>p.then(cb)\<close>.  On a native promise: the callback runs on the fulfilment value
  and settles the new promise, a rejection passes through, and nothing happens while
  the promise is pending.  On anything else the \<^verbatim>\<open>then\<close> property is read and
  called.
\<close>

definition promise_then :: "val \<Rightarrow> (val \<Rightarrow> val js) \<Rightarrow> val js" where
  "promise_then p cb = (case p of
       VPromise (Fulfilled x) \<Rightarrow> react (cb x)
     | VPromise (Rejected e) \<Rightarrow> ret (VPromise (Rejected e))
     | VPromise Pending \<Rightarrow> ret (VPromise Pending)
     | _ \<Rightarrow> bind (get_property p ''then'') call_value)"

text \<open>\<^verbatim>\<open>p.catch(cb)\<close>, the mirror image.\<close>

definition promise_catch :: "val \<Rightarrow> (val \<Rightarrow> val js) \<Rightarrow> val js" where
  "promise_catch p cb = (case p of
       VPromise (Fulfilled x) \<Rightarrow> ret (VPromise (Fulfilled x))
     | VPromise (Rejected e) \<Rightarrow> react (cb e)
     | VPromise Pending \<Rightarrow> ret (VPromise Pending)
     | _ \<Rightarrow> bind (get_property p ''catch'') call_value)"

text \<open>
  The combinators recurse through the callback they hand to \<^verbatim>\<open>then\<close>.  The
  callback is applied to the fulfilment value only, which is what makes the recursion
  well-founded.
\<close>

lemma promise_then_cong [fundef_cong]:
  "p = q \<Longrightarrow> (\<And>x. q = VPromise (Fulfilled x) \<Longrightarrow> f x = g x)
     \<Longrightarrow> promise_then p f = promise_then q g"
  by (auto simp: promise_then_def split: val.splits settlement.splits)

section \<open>helpers.ts\<close>

text \<open>
  \<^verbatim>\<open>Boolean(value && typeof value === "object" && "then" in value && "catch" in value)\<close>
\<close>

definition isPromise :: "val \<Rightarrow> bool" where
  "isPromise v =
     (truthy v \<and> typeof v = ''object'' \<and> has_property v ''then'' \<and> has_property v ''catch'')"

section \<open>result/impl.ts\<close>

text \<open>The two object literals, at a given reference.\<close>

definition ok_obj :: "nat \<Rightarrow> val \<Rightarrow> val" where
  "ok_obj r d = VObj r [(''ok'', VBool True), (''data'', d)]"

definition err_obj :: "nat \<Rightarrow> val \<Rightarrow> val" where
  "err_obj r e = VObj r [(''ok'', VBool False), (''error'', e)]"

definition ok :: "val \<Rightarrow> val js" where
  "ok d w = (Normal (ok_obj (next_ref w) d), w\<lparr>next_ref := Suc (next_ref w)\<rparr>)"

definition err :: "val \<Rightarrow> val js" where
  "err e w = (Normal (err_obj (next_ref w) e), w\<lparr>next_ref := Suc (next_ref w)\<rparr>)"

text \<open>\<^verbatim>\<open>return result.ok\<close> and \<^verbatim>\<open>return !result.ok\<close>\<close>

definition isOk :: "val \<Rightarrow> val js" where
  "isOk result = get_property result ''ok''"

definition isErr :: "val \<Rightarrow> val js" where
  "isErr result = bind (get_property result ''ok'') (\<lambda>c. ret (VBool (\<not> truthy c)))"

fun unwrap :: "val \<Rightarrow> val js" where
  "unwrap result =
     (if isPromise result then promise_then result (\<lambda>x. unwrap x)
      else get_property result ''data'')"

fun unwrapErr :: "val \<Rightarrow> val js" where
  "unwrapErr e =
     (if isPromise e then promise_then e (\<lambda>x. unwrapErr x)
      else get_property e ''error'')"

fun unwrapForced :: "val \<Rightarrow> val js" where
  "unwrapForced result =
     (if isPromise result then promise_then result (\<lambda>x. unwrapForced x)
      else get_property result ''data'')"

fun unwrapEither :: "val \<Rightarrow> val js" where
  "unwrapEither result =
     (if isPromise result then promise_then result (\<lambda>x. unwrapEither x)
      else bind (isOk result) (\<lambda>c.
        if truthy c then get_property result ''data''
        else get_property result ''error''))"

fun unwrapOr :: "val \<Rightarrow> val \<Rightarrow> val js" where
  "unwrapOr result or' =
     (if isPromise result then promise_then result (\<lambda>x. unwrapOr x or')
      else bind (isOk result) (\<lambda>c.
        if truthy c then get_property result ''data''
        else ret or'))"

fun tap :: "val \<Rightarrow> (val \<Rightarrow> outcome) \<Rightarrow> val js" where
  "tap result fn =
     (if isPromise result then promise_then result (\<lambda>x. tap x fn)
      else bind (isOk result) (\<lambda>c.
           bind (if truthy c then bind (get_property result ''data'') (call fn) else ret VUndefined) (\<lambda>_.
           ret result)))"

fun tapErr :: "val \<Rightarrow> (val \<Rightarrow> outcome) \<Rightarrow> val js" where
  "tapErr result fn =
     (if isPromise result then promise_then result (\<lambda>x. tapErr x fn)
      else bind (isErr result) (\<lambda>c.
           bind (if truthy c then bind (get_property result ''error'') (call fn) else ret VUndefined) (\<lambda>_.
           ret result)))"

text \<open>
  The argument of \<^verbatim>\<open>try$\<close> is \<^verbatim>\<open>Promise<T> | (() => T | Promise<T>)\<close>: a value
  handed over as it is, or a zero-argument computation.  A computation is a function,
  of type \<^verbatim>\<open>"function"\<close>, so \<^verbatim>\<open>isPromise(fn)\<close> is false for it and the
  \<^verbatim>\<open>try\<close> block runs it.  A value that \<^verbatim>\<open>isPromise\<close> rejects reaches
  the \<^verbatim>\<open>try\<close> block too, where \<^verbatim>\<open>fn()\<close> calls it.
\<close>

datatype tryable = Deferred val | Thunk "val js"

function try_dollar :: "tryable \<Rightarrow> val js" where
  "try_dollar (Deferred fn) =
     (if isPromise fn then bind (promise_then fn ok) (\<lambda>p. promise_catch p err)
      else try_catch
        (bind (call_value fn) (\<lambda>res.
           if isPromise res then try_dollar (Deferred res)
           else ok res))
        err)"
| "try_dollar (Thunk fn) =
     try_catch
       (bind fn (\<lambda>res.
          if isPromise res then try_dollar (Deferred res)
          else ok res))
       err"
  by pat_completeness auto
termination
  by (relation "measure (\<lambda>a. case a of Deferred v \<Rightarrow> if isPromise v then 0 else 1 | Thunk _ \<Rightarrow> 1)") auto

fun map_result :: "val \<Rightarrow> (val \<Rightarrow> outcome) \<Rightarrow> val js" where
  "map_result result fn =
     (if isPromise result then promise_then result (\<lambda>x. map_result x fn)
      else bind (isOk result) (\<lambda>c.
        if truthy c then try_dollar (Thunk (bind (get_property result ''data'') (call fn)))
        else ret result))"

fun mapErr :: "val \<Rightarrow> (val \<Rightarrow> outcome) \<Rightarrow> val js" where
  "mapErr result fn =
     (if isPromise result then promise_then result (\<lambda>x. mapErr x fn)
      else bind (isErr result) (\<lambda>c.
        if truthy c then
          bind (try_dollar (Thunk (bind (get_property result ''error'') (call fn)))) (\<lambda>r.
          bind (unwrapEither r) (\<lambda>v.
          if isPromise v then promise_then v (\<lambda>x. err x)
          else err v))
        else ret result))"

fun tryMap :: "val \<Rightarrow> (val \<Rightarrow> outcome) \<Rightarrow> val js" where
  "tryMap result fn =
     (if isPromise result then promise_then result (\<lambda>x. tryMap x fn)
      else bind (isOk result) (\<lambda>c.
        if truthy c then bind (get_property result ''data'') (call fn)
        else ret result))"

section \<open>Vocabulary of the specification\<close>

text \<open>
  The two-method asynchronous-completion shape of the specification: the value has a
  \<^verbatim>\<open>then\<close> method and a \<^verbatim>\<open>catch\<close> method, that is, both properties are there
  and can be called.
\<close>

fun has_method :: "val \<Rightarrow> string \<Rightarrow> bool" where
  "has_method (VObj _ ps) k = (case map_of ps k of Some m \<Rightarrow> callable m | None \<Rightarrow> False)"
| "has_method (VFun _ ps _) k = (case map_of ps k of Some m \<Rightarrow> callable m | None \<Rightarrow> False)"
| "has_method (VPromise _) k = (k \<in> set [''then'', ''catch'', ''finally''])"
| "has_method _ k = False"

definition exposes_completion_shape :: "val \<Rightarrow> bool" where
  "exposes_completion_shape v = (has_method v ''then'' \<and> has_method v ''catch'')"

text \<open>A value that is an object and not a function: \<^verbatim>\<open>typeof\<close> says
  \<^verbatim>\<open>"object"\<close> and the value is not \<^verbatim>\<open>null\<close>.\<close>

fun object_typed :: "val \<Rightarrow> bool" where
  "object_typed (VObj _ _) = True"
| "object_typed (VPromise _) = True"
| "object_typed _ = False"

fun is_primitive :: "val \<Rightarrow> bool" where
  "is_primitive (VObj _ _) = False"
| "is_primitive (VFun _ _ _) = False"
| "is_primitive (VPromise _) = False"
| "is_primitive _ = True"

text \<open>
  The claim on deferred inputs, word for word: the first completion returns a promise
  that is fulfilled with the value the second completion returns.
\<close>

fun settles_to_result :: "val completion \<Rightarrow> val completion \<Rightarrow> bool" where
  "settles_to_result (Normal (VPromise (Fulfilled y))) (Normal y') = (y = y')"
| "settles_to_result _ _ = False"

text \<open>
  A combinator \<open>c\<close> commuting with the settlement \<open>s\<close> of its input, as the host
  settles promises: a pending input gives a pending output and runs nothing, a
  rejection passes through, and on a fulfilment with \<open>r\<close> the output is resolved
  with what \<open>c r\<close> returns, or rejected with what it throws.
\<close>

definition through_settlement :: "(val \<Rightarrow> val js) \<Rightarrow> settlement \<Rightarrow> val js" where
  "through_settlement c s w = (case s of
       Fulfilled r \<Rightarrow> (case c r w of
           (Normal y, w') \<Rightarrow> (Normal (VPromise (adopt y)), w')
         | (Throw x, w') \<Rightarrow> (Normal (VPromise (Rejected x)), w')
         | (Unmodelled, w') \<Rightarrow> (Unmodelled, w'))
     | Rejected e \<Rightarrow> (Normal (VPromise (Rejected e)), w)
     | Pending \<Rightarrow> (Normal (VPromise Pending), w))"

text \<open>An ordinary value: \<^verbatim>\<open>isPromise\<close> rejects it and it is no thenable.\<close>

definition ordinary :: "val \<Rightarrow> bool" where
  "ordinary v = (\<not> isPromise v \<and> \<not> thenable v)"

text \<open>Structural equality with \<^verbatim>\<open>ok(y)\<close> and \<^verbatim>\<open>err(x)\<close>, whatever the reference.\<close>

fun is_ok_of :: "val \<Rightarrow> val \<Rightarrow> bool" where
  "is_ok_of y (VObj _ ps) = (ps = [(''ok'', VBool True), (''data'', y)])"
| "is_ok_of y _ = False"

fun is_err_of :: "val \<Rightarrow> val \<Rightarrow> bool" where
  "is_err_of x (VObj _ ps) = (ps = [(''ok'', VBool False), (''error'', x)])"
| "is_err_of x _ = False"

text \<open>The call returned \<^verbatim>\<open>ok(y)\<close>.\<close>

fun returns_ok_of :: "val \<Rightarrow> val completion \<Rightarrow> bool" where
  "returns_ok_of y (Normal r) = is_ok_of y r"
| "returns_ok_of y _ = False"

text \<open>The call yielded \<^verbatim>\<open>err(x)\<close>: at once, or as the value its promise settles to.\<close>

fun yields_err_of :: "val \<Rightarrow> val completion \<Rightarrow> bool" where
  "yields_err_of x (Normal (VPromise (Fulfilled r))) = is_err_of x r"
| "yields_err_of x (Normal r) = is_err_of x r"
| "yields_err_of x _ = False"

section \<open>Worked inputs\<close>

definition w0 :: world where
  "w0 = \<lparr>next_ref = 0, calls = []\<rparr>"

text \<open>\<^verbatim>\<open>() => { throw "boom" }\<close>, \<^verbatim>\<open>() => 2\<close>, \<^verbatim>\<open>async () => 2\<close>,
  \<^verbatim>\<open>async () => { throw 9 }\<close>, \<^verbatim>\<open>() => { throw Promise.reject(9) }\<close> and
  \<^verbatim>\<open>() => err("new error")\<close>, whatever the argument.\<close>

definition throws_boom :: "val \<Rightarrow> outcome" where
  "throws_boom v = Throws (VStr ''boom'')"

definition returns_two :: "val \<Rightarrow> outcome" where
  "returns_two v = Returns (VNum 2)"

definition resolves_two :: "val \<Rightarrow> outcome" where
  "resolves_two v = Returns (VPromise (Fulfilled (VNum 2)))"

definition rejects_nine :: "val \<Rightarrow> outcome" where
  "rejects_nine v = Returns (VPromise (Rejected (VNum 9)))"

definition throws_rejected :: "val \<Rightarrow> outcome" where
  "throws_rejected v = Throws (VPromise (Rejected (VNum 9)))"

definition returns_err :: "val \<Rightarrow> outcome" where
  "returns_err v = Returns (err_obj 5 (VStr ''new error''))"

text \<open>A function value carrying a \<^verbatim>\<open>then\<close> and a \<^verbatim>\<open>catch\<close> method, an object
  carrying both, and the object \<^verbatim>\<open>{ then: 1, catch: 2 }\<close>.\<close>

definition callable_thenable :: val where
  "callable_thenable =
     VFun 0 [(''then'', VFun 1 [] Pending), (''catch'', VFun 2 [] Pending)] Pending"

definition object_thenable :: val where
  "object_thenable = VObj 0 [(''then'', VFun 1 [] Pending), (''catch'', VFun 2 [] Pending)]"

definition data_then_catch :: val where
  "data_then_catch = VObj 0 [(''then'', VNum 1), (''catch'', VNum 2)]"

text \<open>\<^verbatim>\<open>Promise.resolve(5)\<close>, and the thenable
  \<^verbatim>\<open>{ then(resolve) { resolve(42) } }\<close>.\<close>

definition promise_five :: val where
  "promise_five = VPromise (Fulfilled (VNum 5))"

definition hands_over_42 :: val where
  "hands_over_42 = VObj 3 [(''then'', VFun 4 [] (Fulfilled (VNum 42)))]"

section \<open>Basic facts\<close>

lemma isPromise_ok_obj [simp]: "\<not> isPromise (ok_obj r d)"
  by (simp add: isPromise_def ok_obj_def)

lemma isPromise_err_obj [simp]: "\<not> isPromise (err_obj r e)"
  by (simp add: isPromise_def err_obj_def)

lemma isPromise_VPromise [simp]: "isPromise (VPromise s)"
  by (simp add: isPromise_def)

lemma bind_ret [simp]: "bind (ret v) k = k v"
  by (rule ext) (simp add: bind_def ret_def)

lemma bind_throw [simp]: "bind (throw e) k = throw e"
  by (rule ext) (simp add: bind_def throw_def)

lemma isOk_ok_obj [simp]: "isOk (ok_obj r d) = ret (VBool True)"
  by (simp add: isOk_def ok_obj_def)

lemma isOk_err_obj [simp]: "isOk (err_obj r e) = ret (VBool False)"
  by (simp add: isOk_def err_obj_def)

lemma isErr_ok_obj [simp]: "isErr (ok_obj r d) = ret (VBool False)"
  by (simp add: isErr_def ok_obj_def)

lemma isErr_err_obj [simp]: "isErr (err_obj r e) = ret (VBool True)"
  by (simp add: isErr_def err_obj_def)

lemma data_ok_obj [simp]: "get_property (ok_obj r d) ''data'' = ret d"
  by (simp add: ok_obj_def)

lemma error_ok_obj [simp]: "get_property (ok_obj r d) ''error'' = ret VUndefined"
  by (simp add: ok_obj_def)

lemma data_err_obj [simp]: "get_property (err_obj r e) ''data'' = ret VUndefined"
  by (simp add: err_obj_def)

lemma error_err_obj [simp]: "get_property (err_obj r e) ''error'' = ret e"
  by (simp add: err_obj_def)

lemma adopt_ok_obj [simp]: "adopt (ok_obj r d) = Fulfilled (ok_obj r d)"
  by (simp add: ok_obj_def)

lemma adopt_err_obj [simp]: "adopt (err_obj r e) = Fulfilled (err_obj r e)"
  by (simp add: err_obj_def)

lemma adopt_native: "adopt (VPromise s) = s"
  by simp

lemma not_callable_delivers: "\<not> callable m \<Longrightarrow> method_delivers m = None"
  by (cases m) simp_all

lemma not_thenable_delivers: "\<not> thenable v \<Longrightarrow> then_delivers v = None"
  by (cases v) (auto split: option.splits simp: not_callable_delivers)

lemma adopt_no_then:
  "\<not> isPromise v \<Longrightarrow> then_delivers v = None \<Longrightarrow> adopt v = Fulfilled v"
  by (cases v) (simp_all del: then_delivers.simps)

lemma adopt_ordinary: "ordinary v \<Longrightarrow> adopt v = Fulfilled v"
  by (simp add: ordinary_def adopt_no_then not_thenable_delivers)

lemma is_ok_of_ok_obj [simp]: "is_ok_of y (ok_obj r d) = (d = y)"
  by (auto simp add: ok_obj_def)

lemma is_err_of_err_obj [simp]: "is_err_of x (err_obj r e) = (e = x)"
  by (auto simp add: err_obj_def)

lemma call_returns:
  "fn a = Returns y \<Longrightarrow> call fn a w = (Normal y, w\<lparr>calls := calls w @ [a]\<rparr>)"
  by (simp add: call_def)

lemma call_throws:
  "fn a = Throws x \<Longrightarrow> call fn a w = (Throw x, w\<lparr>calls := calls w @ [a]\<rparr>)"
  by (simp add: call_def)

subsection \<open>Reactions on a native promise\<close>

lemma then_native [simp]: "promise_then (VPromise s) cb = through_settlement cb s"
  by (rule ext)
    (simp add: promise_then_def through_settlement_def react_def resolve_def ret_def
      split: settlement.splits prod.splits completion.splits)

subsection \<open>Guarded execution, case by case\<close>

lemma deferred_fulfilled:
  "try_dollar (Deferred (VPromise (Fulfilled v))) w =
     (Normal (VPromise (Fulfilled (ok_obj (next_ref w) v))), w\<lparr>next_ref := Suc (next_ref w)\<rparr>)"
  by (simp add: through_settlement_def ok_def bind_def promise_catch_def ret_def)

lemma deferred_rejected:
  "try_dollar (Deferred (VPromise (Rejected x))) w =
     (Normal (VPromise (Fulfilled (err_obj (next_ref w) x))), w\<lparr>next_ref := Suc (next_ref w)\<rparr>)"
  by (simp add: through_settlement_def bind_def promise_catch_def react_def resolve_def ret_def err_def)

lemma deferred_pending:
  "try_dollar (Deferred (VPromise Pending)) w = (Normal (VPromise Pending), w)"
  by (simp add: through_settlement_def bind_def promise_catch_def ret_def)

lemma deferred_native:
  "\<exists>s' w'. try_dollar (Deferred (VPromise s)) w = (Normal (VPromise s'), w')
     \<and> (\<forall>y. s' \<noteq> Rejected y)"
  by (cases s)
    (simp_all add: deferred_fulfilled deferred_rejected deferred_pending del: try_dollar.simps)

lemma thunk_throw:
  "c w = (Throw x, w') \<Longrightarrow>
     try_dollar (Thunk c) w =
       (Normal (err_obj (next_ref w') x), w'\<lparr>next_ref := Suc (next_ref w')\<rparr>)"
  by (simp add: try_catch_def bind_def err_def)

lemma thunk_value:
  "c w = (Normal v, w') \<Longrightarrow> \<not> isPromise v \<Longrightarrow>
     try_dollar (Thunk c) w =
       (Normal (ok_obj (next_ref w') v), w'\<lparr>next_ref := Suc (next_ref w')\<rparr>)"
  by (simp add: try_catch_def bind_def ok_def)

lemma thunk_promise:
  assumes "c w = (Normal (VPromise s), w')"
  shows "try_dollar (Thunk c) w = try_dollar (Deferred (VPromise s)) w'"
proof -
  obtain s' w'' where d: "try_dollar (Deferred (VPromise s)) w' = (Normal (VPromise s'), w'')"
    using deferred_native[of s w'] by blast
  show ?thesis
    using assms d by (simp add: try_catch_def bind_def del: try_dollar.simps(1))
qed

subsection \<open>The two mappers, case by case\<close>

lemma map_ok_value:
  "f v = Returns y \<Longrightarrow> \<not> isPromise y \<Longrightarrow>
     map_result (ok_obj r v) f w =
       (Normal (ok_obj (next_ref w) y),
        w\<lparr>calls := calls w @ [v], next_ref := Suc (next_ref w)\<rparr>)"
  by (simp add: thunk_value[OF call_returns] del: try_dollar.simps)

lemma map_ok_promise:
  "f v = Returns (VPromise s) \<Longrightarrow>
     map_result (ok_obj r v) f w =
       try_dollar (Deferred (VPromise s)) (w\<lparr>calls := calls w @ [v]\<rparr>)"
  by (simp add: thunk_promise[OF call_returns] del: try_dollar.simps)

lemma map_ok_throw:
  "f v = Throws x \<Longrightarrow>
     map_result (ok_obj r v) f w =
       (Normal (err_obj (next_ref w) x),
        w\<lparr>calls := calls w @ [v], next_ref := Suc (next_ref w)\<rparr>)"
  by (simp add: thunk_throw[OF call_throws] del: try_dollar.simps)

lemma map_err_unchanged: "map_result (err_obj r e) f w = (Normal (err_obj r e), w)"
  by (simp add: ret_def)

lemma mapErr_ok_unchanged: "mapErr (ok_obj r v) f w = (Normal (ok_obj r v), w)"
  by (simp add: ret_def)

lemma mapErr_value:
  "f e = Returns u \<Longrightarrow> \<not> isPromise u \<Longrightarrow>
     mapErr (err_obj r e) f w =
       (Normal (err_obj (Suc (next_ref w)) u),
        w\<lparr>calls := calls w @ [e], next_ref := Suc (Suc (next_ref w))\<rparr>)"
  by (simp add: bind_def thunk_value[OF call_returns] ret_def err_def del: try_dollar.simps)

lemma mapErr_throw:
  "f e = Throws x \<Longrightarrow> \<not> isPromise x \<Longrightarrow>
     mapErr (err_obj r e) f w =
       (Normal (err_obj (Suc (next_ref w)) x),
        w\<lparr>calls := calls w @ [e], next_ref := Suc (Suc (next_ref w))\<rparr>)"
  by (simp add: bind_def thunk_throw[OF call_throws] ret_def err_def del: try_dollar.simps)

lemma mapErr_throw_promise:
  "f e = Throws (VPromise s) \<Longrightarrow>
     mapErr (err_obj r e) f w =
       through_settlement err s (w\<lparr>calls := calls w @ [e], next_ref := Suc (next_ref w)\<rparr>)"
  by (simp add: bind_def thunk_throw[OF call_throws] ret_def del: try_dollar.simps)

lemma mapErr_promise_rejected:
  "f e = Returns (VPromise (Rejected x)) \<Longrightarrow> ordinary x \<Longrightarrow>
     mapErr (err_obj r e) f w =
       (Normal (VPromise (Fulfilled (err_obj (Suc (next_ref w)) x))),
        w\<lparr>calls := calls w @ [e], next_ref := Suc (Suc (next_ref w))\<rparr>)"
  by (simp add: bind_def thunk_promise[OF call_returns] deferred_rejected
      through_settlement_def adopt_ordinary ret_def err_def
      del: try_dollar.simps)

lemma mapErr_promise_fulfilled:
  "f e = Returns (VPromise (Fulfilled u)) \<Longrightarrow> ordinary u \<Longrightarrow>
     mapErr (err_obj r e) f w =
       (Normal (VPromise (Fulfilled (err_obj (Suc (next_ref w)) u))),
        w\<lparr>calls := calls w @ [e], next_ref := Suc (Suc (next_ref w))\<rparr>)"
  by (simp add: bind_def thunk_promise[OF call_returns] deferred_fulfilled
      through_settlement_def adopt_ordinary ret_def err_def
      del: try_dollar.simps)

lemma unwrap_native: "unwrap (VPromise s) = through_settlement unwrap s"
  by simp

lemma map_native:
  "map_result (VPromise s) fn = through_settlement (\<lambda>x. map_result x fn) s"
  by simp

lemma has_method_property: "has_method v k \<Longrightarrow> has_property v k"
  by (cases v) (auto split: option.splits dest!: map_of_SomeD intro: rev_image_eqI)

lemma number_two_plain: "\<not> isPromise (VNum 2)"
  by (simp add: isPromise_def)

section \<open>Deferred in, deferred out\<close>

text \<open>
  C1, as stated, fails where the combinator, applied to the settled value, returns a
  promise: the output is then fulfilled with that promise's value, not with the
  promise.  \<^verbatim>\<open>unwrap(Promise.resolve(ok(Promise.resolve(5))))\<close> is fulfilled with 5,
  while \<^verbatim>\<open>unwrap(ok(Promise.resolve(5)))\<close> is the promise itself; and
  \<^verbatim>\<open>map(Promise.resolve(ok(1)), async () => 2)\<close> is fulfilled with \<^verbatim>\<open>ok(2)\<close>,
  while \<^verbatim>\<open>map(ok(1), async () => 2)\<close> is a promise.
\<close>

theorem deferred_literal_counterexample:
  "fst (unwrap (VPromise (Fulfilled (ok_obj 0 promise_five))) w0) =
       Normal (VPromise (Fulfilled (VNum 5)))
   \<and> fst (unwrap (ok_obj 0 promise_five) w0) = Normal promise_five
   \<and> \<not> settles_to_result (fst (unwrap (VPromise (Fulfilled (ok_obj 0 promise_five))) w0))
         (fst (unwrap (ok_obj 0 promise_five) w0))
   \<and> fst (map_result (VPromise (Fulfilled (ok_obj 0 (VNum 1)))) resolves_two w0) =
       Normal (VPromise (Fulfilled (ok_obj 0 (VNum 2))))
   \<and> fst (map_result (ok_obj 0 (VNum 1)) resolves_two w0) =
       Normal (VPromise (Fulfilled (ok_obj 0 (VNum 2))))
   \<and> \<not> settles_to_result
         (fst (map_result (VPromise (Fulfilled (ok_obj 0 (VNum 1)))) resolves_two w0))
         (fst (map_result (ok_obj 0 (VNum 1)) resolves_two w0))"
proof -
  have u: "unwrap (ok_obj 0 promise_five) w0 = (Normal promise_five, w0)"
    by (simp add: ret_def)
  have m: "map_result (ok_obj 0 (VNum 1)) resolves_two w0 =
      (Normal (VPromise (Fulfilled (ok_obj 0 (VNum 2)))), \<lparr>next_ref = 1, calls = [VNum 1]\<rparr>)"
    by (simp add: map_ok_promise[of resolves_two _ "Fulfilled (VNum 2)"] deferred_fulfilled
        resolves_two_def w0_def del: map_result.simps try_dollar.simps)
  have five: "adopt promise_five = Fulfilled (VNum 5)"
    by (simp add: promise_five_def)
  have du: "fst (unwrap (VPromise (Fulfilled (ok_obj 0 promise_five))) w0) =
      Normal (VPromise (Fulfilled (VNum 5)))"
    by (simp add: unwrap_native through_settlement_def u five del: unwrap.simps)
  have dm: "fst (map_result (VPromise (Fulfilled (ok_obj 0 (VNum 1)))) resolves_two w0) =
      Normal (VPromise (Fulfilled (ok_obj 0 (VNum 2))))"
    by (simp add: map_native through_settlement_def m del: map_result.simps)
  have differ: "promise_five \<noteq> VNum 5"
    "VPromise (Fulfilled (ok_obj 0 (VNum 2))) \<noteq> ok_obj 0 (VNum 2)"
    by (simp_all add: promise_five_def ok_obj_def)
  show ?thesis
    using differ by (simp add: u m du dm del: unwrap.simps map_result.simps)
qed

text \<open>
  C1, amended.  Each of \<^verbatim>\<open>map\<close>, \<^verbatim>\<open>mapErr\<close>, \<^verbatim>\<open>tap\<close>, \<^verbatim>\<open>tapErr\<close>,
  \<^verbatim>\<open>unwrap\<close>, \<^verbatim>\<open>unwrapErr\<close>, \<^verbatim>\<open>unwrapForced\<close>, \<^verbatim>\<open>unwrapEither\<close> and
  \<^verbatim>\<open>unwrapOr\<close>, applied to a promise, returns the promise that the host settles
  from the same combinator, with the same extra arguments, applied to the settled value
  \<open>r\<close> of the input.  When that application returns an ordinary value, the output
  is fulfilled with exactly that value; when it returns a promise, the output takes
  that promise's settlement; when it throws, the output rejects with what was thrown.
  When the input rejects the output rejects with the same reason; and an input that
  never settles gives an output that never settles, with no callback run.
\<close>

theorem combinators_commute_with_settlement:
  "unwrap (VPromise s) = through_settlement unwrap s
   \<and> unwrapErr (VPromise s) = through_settlement unwrapErr s
   \<and> unwrapForced (VPromise s) = through_settlement unwrapForced s
   \<and> unwrapEither (VPromise s) = through_settlement unwrapEither s
   \<and> unwrapOr (VPromise s) d = through_settlement (\<lambda>x. unwrapOr x d) s
   \<and> tap (VPromise s) fn = through_settlement (\<lambda>x. tap x fn) s
   \<and> tapErr (VPromise s) fn = through_settlement (\<lambda>x. tapErr x fn) s
   \<and> map_result (VPromise s) fn = through_settlement (\<lambda>x. map_result x fn) s
   \<and> mapErr (VPromise s) fn = through_settlement (\<lambda>x. mapErr x fn) s
   \<and> (c r w = (Normal y, w') \<and> ordinary y \<longrightarrow>
        through_settlement c (Fulfilled r) w = (Normal (VPromise (Fulfilled y)), w'))
   \<and> (c r w = (Normal (VPromise s'), w') \<longrightarrow>
        through_settlement c (Fulfilled r) w = (Normal (VPromise s'), w'))
   \<and> (c r w = (Throw x, w') \<longrightarrow>
        through_settlement c (Fulfilled r) w = (Normal (VPromise (Rejected x)), w'))
   \<and> through_settlement c (Rejected e) w = (Normal (VPromise (Rejected e)), w)
   \<and> through_settlement c Pending w = (Normal (VPromise Pending), w)"
  by (simp add: through_settlement_def adopt_ordinary)

text \<open>
  C1, amended, on worked inputs: a promise of \<^verbatim>\<open>ok(1)\<close> unwrapped is a promise of
  1; mapped with \<^verbatim>\<open>() => 2\<close> or with \<^verbatim>\<open>async () => 2\<close> it is a promise of
  \<^verbatim>\<open>ok(2)\<close>; tapped with a throwing callback it rejects with what was thrown; a
  promise of a Success holding the thenable \<^verbatim>\<open>{ then(resolve) { resolve(42) } }\<close>
  unwrapped is a promise of 42; a pending promise stays pending and a rejected one
  stays rejected.
\<close>

theorem combinators_commute_with_settlement_witness:
  "unwrap (VPromise (Fulfilled (ok_obj 0 (VNum 1)))) w0 =
     (Normal (VPromise (Fulfilled (VNum 1))), w0)
   \<and> map_result (VPromise (Fulfilled (ok_obj 0 (VNum 1)))) returns_two w0 =
     (Normal (VPromise (Fulfilled (ok_obj 0 (VNum 2)))), \<lparr>next_ref = 1, calls = [VNum 1]\<rparr>)
   \<and> map_result (VPromise (Fulfilled (ok_obj 0 (VNum 1)))) resolves_two w0 =
     (Normal (VPromise (Fulfilled (ok_obj 0 (VNum 2)))), \<lparr>next_ref = 1, calls = [VNum 1]\<rparr>)
   \<and> tap (VPromise (Fulfilled (ok_obj 0 (VNum 1)))) throws_boom w0 =
     (Normal (VPromise (Rejected (VStr ''boom''))), \<lparr>next_ref = 0, calls = [VNum 1]\<rparr>)
   \<and> unwrap (VPromise (Fulfilled (ok_obj 0 hands_over_42))) w0 =
     (Normal (VPromise (Fulfilled (VNum 42))), w0)
   \<and> unwrap (VPromise Pending) w0 = (Normal (VPromise Pending), w0)
   \<and> mapErr (VPromise (Rejected (VNum 3))) returns_two w0 =
     (Normal (VPromise (Rejected (VNum 3))), w0)"
proof -
  let ?one = "ok_obj 0 (VNum 1)"
  let ?w1 = "\<lparr>next_ref = 1, calls = [VNum 1]\<rparr>"
  have plain: "ordinary (VNum 1)"
    by (simp add: ordinary_def isPromise_def)
  have u: "unwrap ?one w0 = (Normal (VNum 1), w0)"
    by (simp add: ret_def)
  have m: "map_result ?one returns_two w0 = (Normal (ok_obj 0 (VNum 2)), ?w1)"
    using map_ok_value[of returns_two "VNum 1" "VNum 2" 0 w0] number_two_plain
    by (simp add: returns_two_def w0_def del: map_result.simps)
  have a: "map_result ?one resolves_two w0 =
      (Normal (VPromise (Fulfilled (ok_obj 0 (VNum 2)))), ?w1)"
    by (simp add: map_ok_promise[of resolves_two _ "Fulfilled (VNum 2)"] deferred_fulfilled
        resolves_two_def w0_def del: map_result.simps try_dollar.simps)
  have t: "tap ?one throws_boom w0 =
      (Throw (VStr ''boom''), \<lparr>next_ref = 0, calls = [VNum 1]\<rparr>)"
    by (simp add: call_def bind_def throws_boom_def w0_def)
  have h: "unwrap (ok_obj 0 hands_over_42) w0 = (Normal hands_over_42, w0)"
    by (simp add: ret_def)
  have d: "adopt hands_over_42 = Fulfilled (VNum 42)"
    by (simp add: hands_over_42_def)
  show ?thesis
    using plain
      combinators_commute_with_settlement[where s = "Fulfilled ?one" and fn = returns_two
        and c = unwrap and r = ?one and w = w0 and y = "VNum 1" and w' = w0]
      combinators_commute_with_settlement[where s = "Fulfilled ?one" and fn = resolves_two
        and c = "\<lambda>x. map_result x resolves_two" and r = ?one and w = w0
        and s' = "Fulfilled (ok_obj 0 (VNum 2))" and w' = ?w1]
      combinators_commute_with_settlement[where s = "Fulfilled ?one" and fn = throws_boom
        and c = "\<lambda>x. tap x throws_boom" and r = ?one and w = w0
        and x = "VStr ''boom''" and w' = "\<lparr>next_ref = 0, calls = [VNum 1]\<rparr>"]
      combinators_commute_with_settlement[where s = "Fulfilled (ok_obj 0 hands_over_42)"]
      combinators_commute_with_settlement[where s = Pending and c = unwrap and w = w0]
      combinators_commute_with_settlement[where s = "Rejected (VNum 3)" and fn = returns_two
        and c = "\<lambda>x. mapErr x returns_two" and e = "VNum 3" and w = w0]
    by (simp add: through_settlement_def u m a t h d
        del: map_result.simps tap.simps unwrapOr.simps unwrap.simps mapErr.simps)
qed

section \<open>Guarded execution\<close>

text \<open>
  C2.  \<^verbatim>\<open>try$\<close> applied to a promise fulfilled with \<open>v\<close> returns a promise
  fulfilled with \<^verbatim>\<open>ok(v)\<close>; applied to a promise rejected with \<open>x\<close> it returns a
  promise fulfilled with \<^verbatim>\<open>err(x)\<close>; a pending promise gives a pending one.
  Whatever the settlement of the input, the call returns a promise and that promise is
  not a rejected one.
\<close>

theorem try_dollar_deferred_settles:
  "try_dollar (Deferred (VPromise (Fulfilled v))) w =
     (Normal (VPromise (Fulfilled (ok_obj (next_ref w) v))), w\<lparr>next_ref := Suc (next_ref w)\<rparr>)
   \<and> try_dollar (Deferred (VPromise (Rejected x))) w =
     (Normal (VPromise (Fulfilled (err_obj (next_ref w) x))), w\<lparr>next_ref := Suc (next_ref w)\<rparr>)
   \<and> try_dollar (Deferred (VPromise Pending)) w = (Normal (VPromise Pending), w)
   \<and> (\<exists>s' w'. try_dollar (Deferred (VPromise s)) w = (Normal (VPromise s'), w')
         \<and> (\<forall>y. s' \<noteq> Rejected y))"
  using deferred_native[of s w]
  by (simp add: deferred_fulfilled deferred_rejected deferred_pending del: try_dollar.simps)

text \<open>C2, on worked inputs: \<^verbatim>\<open>try$(Promise.resolve(5))\<close> and
  \<^verbatim>\<open>try$(Promise.reject("boom"))\<close>.\<close>

theorem try_dollar_deferred_settles_witness:
  "try_dollar (Deferred (VPromise (Fulfilled (VNum 5)))) w0 =
     (Normal (VPromise (Fulfilled (ok_obj 0 (VNum 5)))), \<lparr>next_ref = 1, calls = []\<rparr>)
   \<and> try_dollar (Deferred (VPromise (Rejected (VStr ''boom'')))) w0 =
     (Normal (VPromise (Fulfilled (err_obj 0 (VStr ''boom'')))), \<lparr>next_ref = 1, calls = []\<rparr>)"
  using try_dollar_deferred_settles[of "VNum 5" w0 "VStr ''boom''" Pending]
  by (simp add: w0_def del: try_dollar.simps)



section \<open>Transform combinators\<close>

text \<open>
  C4.  When the mapper throws \<open>x\<close> on the payload \<open>v\<close>, \<^verbatim>\<open>map(ok(v), f)\<close>
  returns normally, with \<^verbatim>\<open>err(x)\<close>: the exception is caught and does not reach the
  caller.  The mapper has been invoked once, with \<open>v\<close>.
\<close>

theorem map_catches_throw:
  "f v = Throws x \<Longrightarrow>
     map_result (ok_obj r v) f w =
       (Normal (err_obj (next_ref w) x),
        w\<lparr>calls := calls w @ [v], next_ref := Suc (next_ref w)\<rparr>)"
  by (rule map_ok_throw)

text \<open>C4, on a worked input: \<^verbatim>\<open>map(ok(1), () => { throw "boom" })\<close> is
  \<^verbatim>\<open>err("boom")\<close>.\<close>

theorem map_catches_throw_witness:
  "throws_boom (VNum 1) = Throws (VStr ''boom'')
   \<and> map_result (ok_obj 0 (VNum 1)) throws_boom w0 =
       (Normal (err_obj 0 (VStr ''boom'')), \<lparr>next_ref = 1, calls = [VNum 1]\<rparr>)"
  using map_catches_throw[of throws_boom "VNum 1" "VStr ''boom''" 0 w0]
  by (simp add: throws_boom_def w0_def del: map_result.simps)

text \<open>
  C5, as stated, fails when a promise comes out of the mapper.  With
  \<^verbatim>\<open>f = () => { throw Promise.reject(9) }\<close>, \<^verbatim>\<open>mapErr(err("e"), f)\<close> is a promise
  that rejects with 9: it is not \<^verbatim>\<open>err(x)\<close> for the thrown \<open>x\<close>, neither at once
  nor once settled.  With \<^verbatim>\<open>f = async () => 2\<close>, which returns the promise \<open>u\<close>
  normally, \<^verbatim>\<open>mapErr(err("e"), f)\<close> is a promise fulfilled with \<^verbatim>\<open>err(2)\<close>, not
  \<^verbatim>\<open>err(u)\<close>.
\<close>

theorem mapErr_promise_counterexample:
  "throws_rejected (VStr ''e'') = Throws (VPromise (Rejected (VNum 9)))
   \<and> fst (mapErr (err_obj 0 (VStr ''e'')) throws_rejected w0) =
       Normal (VPromise (Rejected (VNum 9)))
   \<and> \<not> yields_err_of (VPromise (Rejected (VNum 9)))
         (fst (mapErr (err_obj 0 (VStr ''e'')) throws_rejected w0))
   \<and> resolves_two (VStr ''e'') = Returns (VPromise (Fulfilled (VNum 2)))
   \<and> fst (mapErr (err_obj 0 (VStr ''e'')) resolves_two w0) =
       Normal (VPromise (Fulfilled (err_obj 1 (VNum 2))))
   \<and> \<not> yields_err_of (VPromise (Fulfilled (VNum 2)))
         (fst (mapErr (err_obj 0 (VStr ''e'')) resolves_two w0))"
proof -
  have plain: "ordinary (VNum 2)"
    by (simp add: ordinary_def isPromise_def)
  have thrown: "fst (mapErr (err_obj 0 (VStr ''e'')) throws_rejected w0) =
      Normal (VPromise (Rejected (VNum 9)))"
    by (simp add: mapErr_throw_promise[of throws_rejected _ "Rejected (VNum 9)"]
        throws_rejected_def through_settlement_def del: mapErr.simps)
  have returned: "fst (mapErr (err_obj 0 (VStr ''e'')) resolves_two w0) =
      Normal (VPromise (Fulfilled (err_obj 1 (VNum 2))))"
    using mapErr_promise_fulfilled[of resolves_two "VStr ''e''" "VNum 2" 0 w0] plain
    by (simp add: resolves_two_def w0_def del: mapErr.simps)
  show ?thesis
    by (simp add: thrown returned throws_rejected_def resolves_two_def del: mapErr.simps)
qed

text \<open>
  C5, amended.  When the mapper throws \<open>x\<close> and \<open>x\<close> is not itself a deferred
  value, \<^verbatim>\<open>mapErr(err(e), f)\<close> is \<^verbatim>\<open>err(x)\<close>; when it returns \<open>x\<close> and \<open>x\<close>
  is not a deferred value, the result is \<^verbatim>\<open>err(x)\<close>; when it returns a promise that
  rejects with, or is fulfilled with, an ordinary value \<open>x\<close>, the result is a promise
  fulfilled with \<^verbatim>\<open>err(x)\<close>.  In each case the original error is gone and the
  mapper has been invoked once, with \<open>e\<close>.
\<close>

theorem mapErr_new_payload:
  "(f e = Throws x \<and> \<not> isPromise x \<longrightarrow>
      mapErr (err_obj r e) f w =
        (Normal (err_obj (Suc (next_ref w)) x),
         w\<lparr>calls := calls w @ [e], next_ref := Suc (Suc (next_ref w))\<rparr>))
   \<and> (f e = Returns x \<and> \<not> isPromise x \<longrightarrow>
      mapErr (err_obj r e) f w =
        (Normal (err_obj (Suc (next_ref w)) x),
         w\<lparr>calls := calls w @ [e], next_ref := Suc (Suc (next_ref w))\<rparr>))
   \<and> (f e = Returns (VPromise (Rejected x)) \<and> ordinary x \<longrightarrow>
      mapErr (err_obj r e) f w =
        (Normal (VPromise (Fulfilled (err_obj (Suc (next_ref w)) x))),
         w\<lparr>calls := calls w @ [e], next_ref := Suc (Suc (next_ref w))\<rparr>))
   \<and> (f e = Returns (VPromise (Fulfilled x)) \<and> ordinary x \<longrightarrow>
      mapErr (err_obj r e) f w =
        (Normal (VPromise (Fulfilled (err_obj (Suc (next_ref w)) x))),
         w\<lparr>calls := calls w @ [e], next_ref := Suc (Suc (next_ref w))\<rparr>))"
  using mapErr_throw[of f e x r w] mapErr_value[of f e x r w]
    mapErr_promise_rejected[of f e x r w] mapErr_promise_fulfilled[of f e x r w]
  by (simp del: mapErr.simps)

text \<open>
  C5, amended, on worked inputs: on \<^verbatim>\<open>err(1)\<close>, a mapper that throws
  \<^verbatim>\<open>"boom"\<close> gives \<^verbatim>\<open>err("boom")\<close>, one that returns 2 gives \<^verbatim>\<open>err(2)\<close>,
  one that returns a promise rejecting with 9 gives a promise of \<^verbatim>\<open>err(9)\<close>, and
  one that returns a promise of 2 gives a promise of \<^verbatim>\<open>err(2)\<close>.
\<close>

theorem mapErr_new_payload_witness:
  "mapErr (err_obj 0 (VNum 1)) throws_boom w0 =
       (Normal (err_obj 1 (VStr ''boom'')), \<lparr>next_ref = 2, calls = [VNum 1]\<rparr>)
   \<and> mapErr (err_obj 0 (VNum 1)) returns_two w0 =
       (Normal (err_obj 1 (VNum 2)), \<lparr>next_ref = 2, calls = [VNum 1]\<rparr>)
   \<and> mapErr (err_obj 0 (VNum 1)) rejects_nine w0 =
       (Normal (VPromise (Fulfilled (err_obj 1 (VNum 9)))), \<lparr>next_ref = 2, calls = [VNum 1]\<rparr>)
   \<and> mapErr (err_obj 0 (VNum 1)) resolves_two w0 =
       (Normal (VPromise (Fulfilled (err_obj 1 (VNum 2)))), \<lparr>next_ref = 2, calls = [VNum 1]\<rparr>)"
proof -
  have plain: "\<not> isPromise (VStr ''boom'')" "\<not> isPromise (VNum 2)"
    "ordinary (VNum 9)" "ordinary (VNum 2)"
    by (simp_all add: isPromise_def ordinary_def)
  show ?thesis
    using plain
      mapErr_new_payload[of throws_boom "VNum 1" "VStr ''boom''" 0 w0]
      mapErr_new_payload[of returns_two "VNum 1" "VNum 2" 0 w0]
      mapErr_new_payload[of rejects_nine "VNum 1" "VNum 9" 0 w0]
      mapErr_new_payload[of resolves_two "VNum 1" "VNum 2" 0 w0]
    by (simp add: throws_boom_def returns_two_def rejects_nine_def resolves_two_def w0_def
        del: mapErr.simps)
qed

text \<open>
  C6.  When \<open>f\<close> returns \<open>y\<close> on the payload, \<^verbatim>\<open>tryMap(ok(v), f)\<close> returns
  \<open>y\<close> itself: no object is built around it (the next free reference is unchanged)
  and \<open>f\<close> has been invoked once, with \<open>v\<close>.  \<^verbatim>\<open>tryMap(err(e), f)\<close> returns
  the Failure it was given and leaves the world as it was: \<open>f\<close> is not invoked.
\<close>

theorem tryMap_exact:
  "(f v = Returns y \<longrightarrow>
      tryMap (ok_obj r v) f w = (Normal y, w\<lparr>calls := calls w @ [v]\<rparr>))
   \<and> tryMap (err_obj r e) f w = (Normal (err_obj r e), w)"
  by (simp add: call_returns ret_def)

text \<open>C6, on worked inputs: a callback returning \<^verbatim>\<open>err("new error")\<close>, on
  \<^verbatim>\<open>ok(1)\<close> and on \<^verbatim>\<open>err(1)\<close>.\<close>

theorem tryMap_exact_witness:
  "returns_err (VNum 1) = Returns (err_obj 5 (VStr ''new error''))
   \<and> tryMap (ok_obj 0 (VNum 1)) returns_err w0 =
       (Normal (err_obj 5 (VStr ''new error'')), \<lparr>next_ref = 0, calls = [VNum 1]\<rparr>)
   \<and> tryMap (err_obj 0 (VNum 1)) returns_err w0 = (Normal (err_obj 0 (VNum 1)), w0)"
  using tryMap_exact[of returns_err "VNum 1" "err_obj 5 (VStr ''new error'')" 0 w0 "VNum 1"]
  by (simp add: returns_err_def w0_def del: tryMap.simps)

text \<open>
  C7, as stated, fails for a mapper that returns a promise.  With
  \<^verbatim>\<open>f = async () => 2\<close>, which does not throw, \<^verbatim>\<open>map(ok(1), f)\<close> is a promise
  fulfilled with \<^verbatim>\<open>ok(2)\<close>; it is not \<^verbatim>\<open>ok(f(1))\<close>, the Success holding the
  promise that \<open>f\<close> returned.
\<close>

theorem map_deferred_mapper_counterexample:
  "resolves_two (VNum 1) = Returns (VPromise (Fulfilled (VNum 2)))
   \<and> fst (map_result (ok_obj 0 (VNum 1)) resolves_two w0) =
       Normal (VPromise (Fulfilled (ok_obj 0 (VNum 2))))
   \<and> \<not> returns_ok_of (VPromise (Fulfilled (VNum 2)))
         (fst (map_result (ok_obj 0 (VNum 1)) resolves_two w0))"
  by (simp add: map_ok_promise[of resolves_two _ "Fulfilled (VNum 2)"] deferred_fulfilled
      resolves_two_def w0_def del: map_result.simps try_dollar.simps)

text \<open>
  C7, amended.  For a mapper that returns, on the payload, a value that is not
  deferred: \<^verbatim>\<open>map(ok(v), f)\<close> is \<^verbatim>\<open>ok(f(v))\<close> and \<^verbatim>\<open>mapErr(err(e), g)\<close> is
  \<^verbatim>\<open>err(g(e))\<close>, the mapper invoked once.  \<^verbatim>\<open>map(err(e), f)\<close> and
  \<^verbatim>\<open>mapErr(ok(v), g)\<close> return the result they were given and leave the world as
  it was: the mapper is not invoked.  When \<open>f\<close> returns a promise fulfilled with
  \<open>y\<close>, \<^verbatim>\<open>map(ok(v), f)\<close> is a promise fulfilled with \<^verbatim>\<open>ok(y)\<close>.
\<close>

theorem map_and_mapErr_of_plain_value:
  "(f v = Returns y \<and> \<not> isPromise y \<longrightarrow>
      map_result (ok_obj r v) f w =
        (Normal (ok_obj (next_ref w) y),
         w\<lparr>calls := calls w @ [v], next_ref := Suc (next_ref w)\<rparr>))
   \<and> map_result (err_obj r e) f w = (Normal (err_obj r e), w)
   \<and> (g e = Returns u \<and> \<not> isPromise u \<longrightarrow>
      mapErr (err_obj r e) g w =
        (Normal (err_obj (Suc (next_ref w)) u),
         w\<lparr>calls := calls w @ [e], next_ref := Suc (Suc (next_ref w))\<rparr>))
   \<and> mapErr (ok_obj r v) g w = (Normal (ok_obj r v), w)
   \<and> (f v = Returns (VPromise (Fulfilled y)) \<longrightarrow>
      map_result (ok_obj r v) f w =
        (Normal (VPromise (Fulfilled (ok_obj (next_ref w) y))),
         w\<lparr>calls := calls w @ [v], next_ref := Suc (next_ref w)\<rparr>))"
  using map_ok_value[of f v y r w] mapErr_value[of g e u r w]
    map_ok_promise[of f v "Fulfilled y" r w]
  by (simp add: map_err_unchanged mapErr_ok_unchanged deferred_fulfilled
      del: map_result.simps mapErr.simps try_dollar.simps)

text \<open>C7, amended, on worked inputs: \<^verbatim>\<open>() => 2\<close> on \<^verbatim>\<open>ok(1)\<close> and on
  \<^verbatim>\<open>err(1)\<close>, and \<^verbatim>\<open>async () => 2\<close> on \<^verbatim>\<open>ok(1)\<close>.\<close>

theorem map_and_mapErr_of_plain_value_witness:
  "map_result (ok_obj 0 (VNum 1)) returns_two w0 =
       (Normal (ok_obj 0 (VNum 2)), \<lparr>next_ref = 1, calls = [VNum 1]\<rparr>)
   \<and> mapErr (err_obj 0 (VNum 1)) returns_two w0 =
       (Normal (err_obj 1 (VNum 2)), \<lparr>next_ref = 2, calls = [VNum 1]\<rparr>)
   \<and> map_result (ok_obj 0 (VNum 1)) resolves_two w0 =
       (Normal (VPromise (Fulfilled (ok_obj 0 (VNum 2)))), \<lparr>next_ref = 1, calls = [VNum 1]\<rparr>)"
  using number_two_plain
    map_and_mapErr_of_plain_value[of returns_two "VNum 1" "VNum 2" 0 w0 "VNum 1" returns_two "VNum 2"]
    map_and_mapErr_of_plain_value[of resolves_two "VNum 1" "VNum 2" 0 w0 "VNum 1" returns_two "VNum 2"]
  by (simp add: returns_two_def resolves_two_def w0_def del: map_result.simps mapErr.simps)

section \<open>Inspection combinators\<close>

text \<open>
  C8.  On an immediate result, \<^verbatim>\<open>tap\<close> and \<^verbatim>\<open>tapErr\<close> return the object they
  were given, at its own reference, and build no object (the next free reference is
  unchanged).  On the matching variant the callback is invoked once, with the payload,
  and what it throws reaches the caller; on the other variant it is not invoked.
\<close>

theorem tap_returns_original:
  "tap (ok_obj r v) f w =
     (case f v of Returns _ \<Rightarrow> Normal (ok_obj r v) | Throws x \<Rightarrow> Throw x,
      w\<lparr>calls := calls w @ [v]\<rparr>)
   \<and> tap (err_obj r e) f w = (Normal (err_obj r e), w)
   \<and> tapErr (err_obj r e) f w =
     (case f e of Returns _ \<Rightarrow> Normal (err_obj r e) | Throws x \<Rightarrow> Throw x,
      w\<lparr>calls := calls w @ [e]\<rparr>)
   \<and> tapErr (ok_obj r v) f w = (Normal (ok_obj r v), w)"
  by (simp add: ret_def bind_def call_def split: outcome.split)

text \<open>C8, on worked inputs: \<^verbatim>\<open>tap\<close> and \<^verbatim>\<open>tapErr\<close> on the Success at
  reference 7, with a callback that returns and with one that throws.\<close>

theorem tap_returns_original_witness:
  "tap (ok_obj 7 (VNum 1)) returns_two w0 =
     (Normal (ok_obj 7 (VNum 1)), \<lparr>next_ref = 0, calls = [VNum 1]\<rparr>)
   \<and> tap (ok_obj 7 (VNum 1)) throws_boom w0 =
     (Throw (VStr ''boom''), \<lparr>next_ref = 0, calls = [VNum 1]\<rparr>)
   \<and> tapErr (ok_obj 7 (VNum 1)) throws_boom w0 = (Normal (ok_obj 7 (VNum 1)), w0)"
  using tap_returns_original[of 7 "VNum 1" returns_two w0 "VNum 1"]
    tap_returns_original[of 7 "VNum 1" throws_boom w0 "VNum 1"]
  by (simp add: returns_two_def throws_boom_def w0_def del: tap.simps tapErr.simps)

section \<open>Deferred detection\<close>

text \<open>
  C9, as stated, fails in both directions.  A function value that carries a
  \<^verbatim>\<open>then\<close> and a \<^verbatim>\<open>catch\<close> method exposes the two-method shape, and
  \<^verbatim>\<open>isPromise\<close> is false for it, its type being \<^verbatim>\<open>"function"\<close>.  The object
  \<^verbatim>\<open>{ then: 1, catch: 2 }\<close> has no method at all, and \<^verbatim>\<open>isPromise\<close> is true for
  it.
\<close>

theorem isPromise_shape_counterexample:
  "exposes_completion_shape callable_thenable \<and> \<not> isPromise callable_thenable
   \<and> isPromise data_then_catch \<and> \<not> exposes_completion_shape data_then_catch"
  by (simp add: exposes_completion_shape_def isPromise_def callable_thenable_def
      data_then_catch_def)

text \<open>
  C9, amended.  \<^verbatim>\<open>isPromise\<close> is true exactly for the values that are objects and
  not functions (type \<^verbatim>\<open>"object"\<close>, not \<^verbatim>\<open>null\<close>) and on which both a
  \<^verbatim>\<open>then\<close> and a \<^verbatim>\<open>catch\<close> property are present, callable or not.  So it is
  true for every such object that exposes the two methods and for every native
  promise, and false for every function value, every primitive value and every result
  built by \<^verbatim>\<open>ok\<close> or \<^verbatim>\<open>err\<close>, whatever its payload.
\<close>

theorem isPromise_characterised:
  "isPromise v = (object_typed v \<and> has_property v ''then'' \<and> has_property v ''catch'')
   \<and> (object_typed v \<and> exposes_completion_shape v \<longrightarrow> isPromise v)
   \<and> isPromise (VPromise s)
   \<and> \<not> isPromise (VFun r ps b)
   \<and> (is_primitive v \<longrightarrow> \<not> isPromise v)
   \<and> \<not> isPromise (ok_obj r x)
   \<and> \<not> isPromise (err_obj r x)"
proof -
  have a: "isPromise v = (object_typed v \<and> has_property v ''then'' \<and> has_property v ''catch'')"
    by (cases v) (simp_all add: isPromise_def)
  have b: "object_typed v \<and> exposes_completion_shape v \<longrightarrow> isPromise v"
    by (simp add: a exposes_completion_shape_def has_method_property)
  have c: "is_primitive v \<longrightarrow> \<not> isPromise v"
    by (cases v) (simp_all add: isPromise_def)
  have d: "\<not> isPromise (VFun r ps b)"
    by (simp add: isPromise_def)
  show ?thesis
    using a b c d by simp
qed

text \<open>C9, amended, on worked inputs: an object with both methods, the number 5,
  \<^verbatim>\<open>null\<close>, and a Success whose payload is a promise.\<close>

theorem isPromise_characterised_witness:
  "isPromise object_thenable \<and> \<not> isPromise (VNum 5) \<and> \<not> isPromise VNull
   \<and> \<not> isPromise (ok_obj 0 (VPromise Pending))"
proof -
  have h: "object_typed object_thenable \<and> exposes_completion_shape object_thenable"
    "is_primitive (VNum 5)" "is_primitive VNull"
    by (simp_all add: object_thenable_def exposes_completion_shape_def)
  show ?thesis
    using h isPromise_characterised[of object_thenable Pending 0 "[]" Pending "VPromise Pending"]
      isPromise_characterised[of "VNum 5" Pending 0 "[]" Pending "VPromise Pending"]
      isPromise_characterised[of VNull Pending 0 "[]" Pending "VPromise Pending"]
    by blast
qed

section \<open>Constructors, predicates and the unsafe unwraps\<close>

text \<open>
  C10.  \<^verbatim>\<open>ok(v)\<close> and \<^verbatim>\<open>err(e)\<close> build the two object literals at a fresh
  reference.  On a Success, \<^verbatim>\<open>isOk\<close> is true, \<^verbatim>\<open>isErr\<close> is false and
  \<^verbatim>\<open>unwrap\<close> returns the payload itself; on a Failure, \<^verbatim>\<open>isErr\<close> is true,
  \<^verbatim>\<open>isOk\<close> is false and \<^verbatim>\<open>unwrapErr\<close> returns the payload itself.  On
  the wrong variant \<^verbatim>\<open>unwrap\<close> and \<^verbatim>\<open>unwrapErr\<close> return normally, with
  \<^verbatim>\<open>undefined\<close>: they do not throw.  None of the six changes the world.
\<close>

theorem constructors_predicates_unwrap:
  "ok v w = (Normal (ok_obj (next_ref w) v), w\<lparr>next_ref := Suc (next_ref w)\<rparr>)
   \<and> err e w = (Normal (err_obj (next_ref w) e), w\<lparr>next_ref := Suc (next_ref w)\<rparr>)
   \<and> isOk (ok_obj r v) w = (Normal (VBool True), w)
   \<and> isErr (ok_obj r v) w = (Normal (VBool False), w)
   \<and> unwrap (ok_obj r v) w = (Normal v, w)
   \<and> isErr (err_obj r e) w = (Normal (VBool True), w)
   \<and> isOk (err_obj r e) w = (Normal (VBool False), w)
   \<and> unwrapErr (err_obj r e) w = (Normal e, w)
   \<and> unwrap (err_obj r e) w = (Normal VUndefined, w)
   \<and> unwrapErr (ok_obj r v) w = (Normal VUndefined, w)"
  by (simp add: ok_def err_def ret_def)

text \<open>C10, on worked inputs: \<^verbatim>\<open>ok(1)\<close> and \<^verbatim>\<open>err("e")\<close> built in the empty
  world, and the four unwraps of them.\<close>

theorem constructors_predicates_unwrap_witness:
  "ok (VNum 1) w0 = (Normal (ok_obj 0 (VNum 1)), \<lparr>next_ref = 1, calls = []\<rparr>)
   \<and> err (VStr ''e'') w0 = (Normal (err_obj 0 (VStr ''e'')), \<lparr>next_ref = 1, calls = []\<rparr>)
   \<and> unwrap (ok_obj 0 (VNum 1)) w0 = (Normal (VNum 1), w0)
   \<and> unwrapErr (err_obj 0 (VStr ''e'')) w0 = (Normal (VStr ''e''), w0)
   \<and> unwrap (err_obj 0 (VStr ''e'')) w0 = (Normal VUndefined, w0)
   \<and> unwrapErr (ok_obj 0 (VNum 1)) w0 = (Normal VUndefined, w0)"
  using constructors_predicates_unwrap[of "VNum 1" w0 "VStr ''e''" 0]
  by (simp add: w0_def del: unwrap.simps unwrapErr.simps)

end
